theory Spec2Isabelle
  imports Complex_Main
begin

section \<open>Errors raised by the notebooks' code\<close>

text \<open>
  One message of the \<open>RuntimeError\<close> that \<open>load_state_dict\<close> raises, as recorded in the
  traceback of Part 6, cell 10: a size mismatch names the parameter, the shape found in the
  checkpoint and the shape in the current model. The exceptions of Python are values of the
  type \<open>error\<close>.
\<close>

datatype load_error_msg =
    MissingKeys "string list"
  | UnexpectedKeys "string list"
  | SizeMismatch string "int list" "int list"

datatype error =
    ZeroDivisionError
  | FileNotFoundError string
  | KeyError string
  | TypeError
  | IndexError
  | RuntimeError "load_error_msg list"

section \<open>Part 3: the training loop\<close>

text \<open>
  The state the loop of Part 3 (cell 36) works on: the parameters of \<open>model\<close> (shared with
  \<open>optimizer\<close>), their \<open>.grad\<close> attribute (\<open>None\<close> until the first backward pass, as
  cell 22 prints), the variable \<open>running_loss\<close> and the lines printed so far.
\<close>

record ('p, 'g) train_state =
  params :: 'p
  grad :: "'g option"
  running_loss :: real
  printed :: "real list"

text \<open>
  What the framework computes, taken as parameters: the value of
  \<open>criterion(model.forward(images), labels)\<close> on a batch, the gradient of that loss with
  respect to the parameters, and the update rule of the optimizer (\<open>optim.SGD\<close> with
  \<open>lr=0.003\<close> in cell 36).
\<close>

record ('p, 'g, 'b) framework =
  loss_of :: "'p \<Rightarrow> 'b \<Rightarrow> real"
  grad_of :: "'p \<Rightarrow> 'b \<Rightarrow> 'g"
  update :: "'p \<Rightarrow> 'g \<Rightarrow> 'p"

text \<open>
  Modelled from the spec: \<open>optimizer.zero_grad()\<close> is framework code, not part of the
  sources. The notebook (cell 28): "Clear the gradients, do this because gradients are
  accumulated". A gradient that is still \<open>None\<close> stays \<open>None\<close>.
\<close>

definition zero_grad :: "('p, 'g::monoid_add) train_state \<Rightarrow> ('p, 'g) train_state" where
  "zero_grad s = s\<lparr>grad := map_option (\<lambda>_. 0) (grad s)\<rparr>"

text \<open>
  Modelled from the spec: \<open>loss.backward()\<close> is framework code, not part of the sources.
  The notebook: "When you do multiple backwards passes with the same parameters, the
  gradients are accumulated": the gradient of the loss is added to what \<open>.grad\<close> holds.
\<close>

definition backward ::
  "('p, 'g::monoid_add, 'b) framework \<Rightarrow> 'b \<Rightarrow> ('p, 'g) train_state \<Rightarrow> ('p, 'g) train_state" where
  "backward fw batch s =
     (let g = grad_of fw (params s) batch
      in s\<lparr>grad := Some (case grad s of None \<Rightarrow> g | Some acc \<Rightarrow> acc + g)\<rparr>)"

text \<open>
  Modelled from the spec: \<open>optimizer.step()\<close> is framework code, not part of the sources.
  It updates the parameters from the gradient that \<open>.grad\<close> holds ("Take a step with the
  optimizer to update the weights"), and leaves them alone while there is no gradient.
\<close>

definition optimizer_step ::
  "('p, 'g::monoid_add, 'b) framework \<Rightarrow> ('p, 'g) train_state \<Rightarrow> ('p, 'g) train_state" where
  "optimizer_step fw s =
     (case grad s of None \<Rightarrow> s | Some g \<Rightarrow> s\<lparr>params := update fw (params s) g\<rparr>)"

text \<open>
  The body of the inner loop (cell 36):
  \<^verbatim>\<open>
        optimizer.zero_grad()
        output = model.forward(images)
        loss = criterion(output, labels)
        loss.backward()
        optimizer.step()
        running_loss += loss.item()
  \<close>
\<close>

definition training_pass ::
  "('p, 'g::monoid_add, 'b) framework \<Rightarrow> ('p, 'g) train_state \<Rightarrow> 'b \<Rightarrow> ('p, 'g) train_state" where
  "training_pass fw s batch =
     (let s1 = zero_grad s;
          loss = loss_of fw (params s1) batch;
          s2 = backward fw batch s1;
          s3 = optimizer_step fw s2
      in s3\<lparr>running_loss := running_loss s3 + loss\<rparr>)"

text \<open>
  One epoch: \<open>running_loss = 0\<close>, the pass over \<open>trainloader\<close>, and the \<open>else\<close> branch of
  the \<open>for\<close>, which always runs (the loop has no \<open>break\<close>) and divides by
  \<open>len(trainloader)\<close>: with no batch at all Python raises \<open>ZeroDivisionError\<close>.
\<close>

definition run_epoch ::
  "('p, 'g::monoid_add, 'b) framework \<Rightarrow> 'b list \<Rightarrow> ('p, 'g) train_state \<Rightarrow>
     error + ('p, 'g) train_state" where
  "run_epoch fw trainloader s =
     (let s1 = foldl (training_pass fw) (s\<lparr>running_loss := 0\<rparr>) trainloader
      in if length trainloader = 0 then Inl ZeroDivisionError
         else Inr (s1\<lparr>printed := printed s1 @ [running_loss s1 / real (length trainloader)]\<rparr>))"

text \<open>
  \<open>for e in range(epochs)\<close>. The loader shuffles, so each pass over it may yield other
  batches: \<open>trainloader e\<close> is the list of batches of pass \<open>e\<close>. The notebook sets
  \<open>epochs = 5\<close>; the number of epochs is an argument of \<open>training_loop\<close>.
\<close>

fun train ::
  "('p, 'g::monoid_add, 'b) framework \<Rightarrow> (nat \<Rightarrow> 'b list) \<Rightarrow> nat list \<Rightarrow> ('p, 'g) train_state \<Rightarrow>
     error + ('p, 'g) train_state" where
  "train fw trainloader [] s = Inr s"
| "train fw trainloader (e # es) s =
     (case run_epoch fw (trainloader e) s of
        Inl err \<Rightarrow> Inl err
      | Inr s' \<Rightarrow> train fw trainloader es s')"

definition training_loop ::
  "('p, 'g::monoid_add, 'b) framework \<Rightarrow> (nat \<Rightarrow> 'b list) \<Rightarrow> nat \<Rightarrow> ('p, 'g) train_state \<Rightarrow>
     error + ('p, 'g) train_state" where
  "training_loop fw trainloader n s = train fw trainloader [0..<n] s"

text \<open>
  The reading of the text, to compare the loop with: every step applies the optimizer's
  update to the gradient of the current batch's loss alone.
\<close>

definition step_alone :: "('p, 'g, 'b) framework \<Rightarrow> 'p \<Rightarrow> 'b \<Rightarrow> 'p" where
  "step_alone fw p batch = update fw p (grad_of fw p batch)"

section \<open>Part 6: saving and loading models\<close>

subsection \<open>Python values\<close>

text \<open>
  A tensor as far as the notebooks look at it: its shape, and its entries, which no code of
  the notebooks inspects (they stay a type parameter).
\<close>

record 'v tensor =
  shape :: "int list"
  entries :: 'v

text \<open>
  The values that reach \<open>torch.save\<close> and come back from \<open>torch.load\<close>: integers, lists,
  tensors, the framework's parameter container (the ordered dictionary that
  \<open>model.state_dict()\<close> returns) and plain dictionaries with string keys.
\<close>

datatype 'v pyval =
    PyInt int
  | PyList "'v pyval list"
  | PyTensor "'v tensor"
  | PyStateDict "(string \<times> 'v tensor) list"
  | PyDict "(string \<times> 'v pyval) list"

text \<open>
  \<open>d[k]\<close> with a string \<open>k\<close>: \<open>KeyError\<close> for a missing key of a dictionary,
  \<open>IndexError\<close> for a tensor, \<open>TypeError\<close> for an integer or a list.
\<close>

fun getitem :: "'v pyval \<Rightarrow> string \<Rightarrow> error + 'v pyval" where
  "getitem (PyDict d) k = (case map_of d k of None \<Rightarrow> Inl (KeyError k) | Some v \<Rightarrow> Inr v)"
| "getitem (PyStateDict d) k =
     (case map_of d k of None \<Rightarrow> Inl (KeyError k) | Some t \<Rightarrow> Inr (PyTensor t))"
| "getitem (PyTensor t) k = Inl IndexError"
| "getitem (PyInt n) k = Inl TypeError"
| "getitem (PyList vs) k = Inl TypeError"

fun dict_keys :: "'v pyval \<Rightarrow> string set" where
  "dict_keys (PyDict d) = set (map fst d)"
| "dict_keys (PyStateDict d) = set (map fst d)"
| "dict_keys _ = {}"

subsection \<open>The framework's serializer\<close>

text \<open>
  Modelled from the spec: \<open>torch.save\<close> and \<open>torch.load\<close> are the framework's built-in
  serialization primitives, a black box to the notebooks. The file system maps a path to
  the object last saved there, and loading gives that object back; a path never written
  raises \<open>FileNotFoundError\<close>.
\<close>

type_synonym 'v files = "string \<rightharpoonup> 'v pyval"

definition torch_save :: "'v pyval \<Rightarrow> string \<Rightarrow> 'v files \<Rightarrow> 'v files" where
  "torch_save obj path fs = fs(path \<mapsto> obj)"

text \<open>
  Modelled from the spec: \<open>torch.load\<close>, the framework's built-in deserializer, gives back
  the object saved at the path.
\<close>

definition torch_load :: "'v files \<Rightarrow> string \<Rightarrow> error + 'v pyval" where
  "torch_load fs path = (case fs path of None \<Rightarrow> Inl (FileNotFoundError path) | Some obj \<Rightarrow> Inr obj)"

subsection \<open>The network of \<open>fc_model\<close>\<close>

text \<open>
  A \<open>Linear\<close> layer and the \<open>Network\<close> object, with the attributes the notebook reads
  (\<open>out_features\<close>, \<open>hidden_layers\<close>) and prints (cells 6 and 13).
\<close>

record 'v linear =
  in_features :: int
  out_features :: int
  weight :: "'v tensor"
  bias :: "'v tensor"

record 'v network =
  hidden_layers :: "'v linear list"
  "output" :: "'v linear"
  dropout_p :: real

text \<open>
  Modelled from the spec: \<open>nn.Linear(in_features, out_features)\<close> is framework code. The
  shapes are those of the traceback of cell 10: the weight of \<open>Linear(784, 512)\<close> has
  shape \<open>[512, 784]\<close>, its bias \<open>[512]\<close>. The fresh entries are the framework's random
  initialisation, given by \<open>init\<close> for each parameter name.
\<close>

definition Linear :: "(string \<Rightarrow> 'v) \<Rightarrow> string \<Rightarrow> int \<Rightarrow> int \<Rightarrow> 'v linear" where
  "Linear init name n_in n_out =
     \<lparr>in_features = n_in, out_features = n_out,
      weight = \<lparr>shape = [n_out, n_in], entries = init (name @ ''.weight'')\<rparr>,
      bias = \<lparr>shape = [n_out], entries = init (name @ ''.bias'')\<rparr>\<rparr>"

text \<open>Decimal digits of an index, as in the parameter names \<open>hidden_layers.0.weight\<close>.\<close>

definition digit :: "nat \<Rightarrow> char" where
  "digit n = ''0123456789'' ! n"

fun string_of_nat :: "nat \<Rightarrow> string" where
  "string_of_nat n =
     (if n < 10 then [digit n] else string_of_nat (n div 10) @ [digit (n mod 10)])"

declare string_of_nat.simps [simp del]

text \<open>
  Modelled from the spec: the framework names the layers of \<open>hidden_layers\<close> by their index,
  as cell 6 prints them.
\<close>

definition hidden_name :: "nat \<Rightarrow> string" where
  "hidden_name i = ''hidden_layers.'' @ string_of_nat i"

text \<open>
  Modelled from the spec: the module \<open>fc_model\<close> is not among the sources. Its constructor
  \<open>Network(input_size, output_size, hidden_layers)\<close> is taken from what the notebook prints
  for \<open>Network(784, 10, [512, 256, 128])\<close> and \<open>Network(784, 10, [400, 200, 100])\<close>: hidden
  layer \<open>0\<close> maps \<open>input_size\<close> to the first hidden size, each later hidden layer maps the
  size before it to its own, \<open>output\<close> maps the last hidden size to \<open>output_size\<close>, and
  the dropout probability is \<open>0.5\<close>. No network without a hidden layer is shown; the
  constructor is taken to raise \<open>IndexError\<close> on an empty list, having no first size to
  read.
\<close>

fun hidden_chain :: "(string \<Rightarrow> 'v) \<Rightarrow> nat \<Rightarrow> int \<Rightarrow> int list \<Rightarrow> 'v linear list" where
  "hidden_chain init i n_in [] = []"
| "hidden_chain init i n_in (h # hs) =
     Linear init (hidden_name i) n_in h # hidden_chain init (Suc i) h hs"

text \<open>
  Modelled from the spec: the constructor \<open>fc_model.Network\<close>, absent from the sources, as
  described above.
\<close>

definition Network :: "(string \<Rightarrow> 'v) \<Rightarrow> int \<Rightarrow> int \<Rightarrow> int list \<Rightarrow> error + 'v network" where
  "Network init input_size output_size hidden =
     (if hidden = [] then Inl IndexError
      else Inr \<lparr>hidden_layers = hidden_chain init 0 input_size hidden,
                output = Linear init ''output'' (last hidden) output_size,
                dropout_p = 1 / 2\<rparr>)"

text \<open>
  Modelled from the spec: \<open>model.state_dict()\<close> is framework code; cell 6 prints its keys:
  \<open>hidden_layers.0.weight\<close>, \<open>hidden_layers.0.bias\<close>, ..., \<open>output.weight\<close>,
  \<open>output.bias\<close>, in this order.
\<close>

definition layer_params :: "string \<Rightarrow> 'v linear \<Rightarrow> (string \<times> 'v tensor) list" where
  "layer_params name l = [(name @ ''.weight'', weight l), (name @ ''.bias'', bias l)]"

text \<open>
  Modelled from the spec: the parameters of the hidden layers, named by index, in the order
  cell 6 prints.
\<close>

fun hidden_params :: "nat \<Rightarrow> 'v linear list \<Rightarrow> (string \<times> 'v tensor) list" where
  "hidden_params i [] = []"
| "hidden_params i (l # ls) = layer_params (hidden_name i) l @ hidden_params (Suc i) ls"

text \<open>
  Modelled from the spec: \<open>model.state_dict()\<close>, framework code: the parameters of the
  hidden layers, then those of \<open>output\<close>.
\<close>

definition state_dict :: "'v network \<Rightarrow> (string \<times> 'v tensor) list" where
  "state_dict model =
     hidden_params 0 (hidden_layers model) @ layer_params ''output'' (output model)"

text \<open>
  Modelled from the spec: \<open>model.load_state_dict(state_dict)\<close> is framework code. The
  notebook says that loading "works only if the model architecture is exactly the same as
  the checkpoint architecture", and the traceback of cell 10 shows how it fails: the
  framework collects one message per parameter whose shape in the checkpoint differs from
  the shape in the model (\<open>output.bias\<close>, of shape \<open>[10]\<close> on both sides, is not listed) and
  raises \<open>RuntimeError\<close> when there is any message. Parameters of the model absent from
  the state dict, and entries of the state dict the model has no parameter for, are
  reported in the same error. Without a message every parameter is replaced by the tensor
  of its name.
\<close>

definition size_mismatches ::
  "(string \<times> 'v tensor) list \<Rightarrow> (string \<times> 'v tensor) list \<Rightarrow> load_error_msg list" where
  "size_mismatches own sd =
     concat (map (\<lambda>(k, p).
       (case map_of sd k of
          None \<Rightarrow> []
        | Some t \<Rightarrow> if shape t \<noteq> shape p then [SizeMismatch k (shape t) (shape p)] else []))
       own)"

text \<open>
  Modelled from the spec: the messages of \<open>load_state_dict\<close>, framework code: missing
  names, unexpected names, then the size mismatches in the order of the model's
  parameters, as the traceback lists them.
\<close>

definition load_error_msgs ::
  "(string \<times> 'v tensor) list \<Rightarrow> (string \<times> 'v tensor) list \<Rightarrow> load_error_msg list" where
  "load_error_msgs own sd =
     (let missing = filter (\<lambda>k. map_of sd k = None) (map fst own);
          unexpected = filter (\<lambda>k. map_of own k = None) (map fst sd)
      in (if missing = [] then [] else [MissingKeys missing]) @
         (if unexpected = [] then [] else [UnexpectedKeys unexpected]) @
         size_mismatches own sd)"

text \<open>
  Modelled from the spec: \<open>load_state_dict\<close> copies into a parameter the tensor the state
  dict has under its name.
\<close>

definition copy_param :: "(string \<times> 'v tensor) list \<Rightarrow> string \<Rightarrow> 'v tensor \<Rightarrow> 'v tensor" where
  "copy_param sd k p = (case map_of sd k of None \<Rightarrow> p | Some t \<Rightarrow> t)"

text \<open>
  Modelled from the spec: \<open>load_state_dict\<close> on one layer: its weight and its bias.
\<close>

definition load_linear :: "(string \<times> 'v tensor) list \<Rightarrow> string \<Rightarrow> 'v linear \<Rightarrow> 'v linear" where
  "load_linear sd name l =
     l\<lparr>weight := copy_param sd (name @ ''.weight'') (weight l),
       bias := copy_param sd (name @ ''.bias'') (bias l)\<rparr>"

text \<open>
  Modelled from the spec: \<open>load_state_dict\<close> on the hidden layers, each under its index.
\<close>

fun load_hidden :: "(string \<times> 'v tensor) list \<Rightarrow> nat \<Rightarrow> 'v linear list \<Rightarrow> 'v linear list" where
  "load_hidden sd i [] = []"
| "load_hidden sd i (l # ls) = load_linear sd (hidden_name i) l # load_hidden sd (Suc i) ls"

text \<open>
  Modelled from the spec: \<open>model.load_state_dict(state_dict)\<close>, framework code; the
  traceback shows its last lines: \<open>if len(error_msgs) > 0: raise RuntimeError(...)\<close>.
\<close>

definition load_state_dict ::
  "'v network \<Rightarrow> (string \<times> 'v tensor) list \<Rightarrow> error + 'v network" where
  "load_state_dict model sd =
     (let error_msgs = load_error_msgs (state_dict model) sd
      in if length error_msgs > 0 then Inl (RuntimeError error_msgs)
         else Inr (model\<lparr>hidden_layers := load_hidden sd 0 (hidden_layers model),
                         output := load_linear sd ''output'' (output model)\<rparr>))"

text \<open>
  The two calls as \<open>load_checkpoint\<close> makes them, on values read back from a file: an
  argument of another type than the call expects raises \<open>TypeError\<close>.
\<close>

text \<open>The integers of a Python list, if it holds integers only.\<close>

fun int_list :: "'v pyval list \<Rightarrow> int list option" where
  "int_list [] = Some []"
| "int_list (PyInt n # vs) = map_option ((#) n) (int_list vs)"
| "int_list (_ # vs) = None"

text \<open>
  Modelled from the spec: \<open>fc_model.Network\<close>, absent from the sources, called on Python
  values.
\<close>

fun fc_model_Network ::
  "(string \<Rightarrow> 'v) \<Rightarrow> 'v pyval \<Rightarrow> 'v pyval \<Rightarrow> 'v pyval \<Rightarrow> error + 'v network" where
  "fc_model_Network init (PyInt input_size) (PyInt output_size) (PyList hidden) =
     (case int_list hidden of
        None \<Rightarrow> Inl TypeError
      | Some hs \<Rightarrow> Network init input_size output_size hs)"
| "fc_model_Network init _ _ _ = Inl TypeError"

text \<open>
  Modelled from the spec: \<open>model.load_state_dict\<close>, framework code, called on a Python
  value.
\<close>

fun model_load_state_dict :: "'v network \<Rightarrow> 'v pyval \<Rightarrow> error + 'v network" where
  "model_load_state_dict model (PyStateDict sd) = load_state_dict model sd"
| "model_load_state_dict model _ = Inl TypeError"

subsection \<open>The checkpoint (cells 11 and 12)\<close>

text \<open>
  \<^verbatim>\<open>
  checkpoint = {'input_size': 784,
                'output_size': 10,
                'hidden_layers': [each.out_features for each in model.hidden_layers],
                'state_dict': model.state_dict()}
  torch.save(checkpoint, 'checkpoint.pth')
  \<close>
\<close>

definition checkpoint :: "'v network \<Rightarrow> 'v pyval" where
  "checkpoint model =
     PyDict [(''input_size'', PyInt 784),
             (''output_size'', PyInt 10),
             (''hidden_layers'', PyList (map (\<lambda>each. PyInt (out_features each)) (hidden_layers model))),
             (''state_dict'', PyStateDict (state_dict model))]"

definition save_checkpoint :: "'v network \<Rightarrow> 'v files \<Rightarrow> 'v files" where
  "save_checkpoint model fs = torch_save (checkpoint model) ''checkpoint.pth'' fs"

text \<open>
  A computation that records the keys it subscripts a dictionary with, next to its result:
  \<open>call\<close> records nothing, \<open>subscript\<close> records its key, \<open>then_do\<close> runs the rest unless
  the first part raised.
\<close>

type_synonym 'a traced = "string list \<times> (error + 'a)"

definition call :: "error + 'a \<Rightarrow> 'a traced" where
  "call r = ([], r)"

definition subscript :: "'v pyval \<Rightarrow> string \<Rightarrow> 'v pyval traced" where
  "subscript d k = ([k], getitem d k)"

definition then_do :: "'a traced \<Rightarrow> ('a \<Rightarrow> 'b traced) \<Rightarrow> 'b traced" where
  "then_do m f =
     (case m of
        (ks, Inl e) \<Rightarrow> (ks, Inl e)
      | (ks, Inr x) \<Rightarrow> (case f x of (ks', r) \<Rightarrow> (ks @ ks', r)))"

text \<open>
  \<^verbatim>\<open>
  def load_checkpoint(filepath):
      checkpoint = torch.load(filepath)
      model = fc_model.Network(checkpoint['input_size'],
                               checkpoint['output_size'],
                               checkpoint['hidden_layers'])
      model.load_state_dict(checkpoint['state_dict'])
      return model
  \<close>
  The constructor and \<open>load_state_dict\<close> are parameters of the model of the function.
\<close>

definition load_checkpoint ::
  "('v pyval \<Rightarrow> 'v pyval \<Rightarrow> 'v pyval \<Rightarrow> error + 'm) \<Rightarrow> ('m \<Rightarrow> 'v pyval \<Rightarrow> error + 'm) \<Rightarrow>
     'v files \<Rightarrow> string \<Rightarrow> 'm traced" where
  "load_checkpoint Network_ctor load_sd fs filepath =
     then_do (call (torch_load fs filepath)) (\<lambda>checkpoint.
     then_do (subscript checkpoint ''input_size'') (\<lambda>input_size.
     then_do (subscript checkpoint ''output_size'') (\<lambda>output_size.
     then_do (subscript checkpoint ''hidden_layers'') (\<lambda>hidden.
     then_do (call (Network_ctor input_size output_size hidden)) (\<lambda>model.
     then_do (subscript checkpoint ''state_dict'') (\<lambda>sd.
     call (load_sd model sd)))))))"

definition keys_read :: "'a traced \<Rightarrow> string set" where
  "keys_read r = set (fst r)"

definition result :: "'a traced \<Rightarrow> error + 'a" where
  "result r = snd r"

section \<open>Concrete networks and training runs\<close>

text \<open>
  A small instance to run the loop on: one integer parameter, the squared distance to the
  batch as loss, plain gradient descent with step size 1, and a state that still holds a
  gradient left over from an earlier backward pass.
\<close>

definition demo_framework :: "(int, int, int) framework" where
  "demo_framework =
     \<lparr>loss_of = (\<lambda>p b. real_of_int ((p - b) * (p - b))),
      grad_of = (\<lambda>p b. 2 * (p - b)),
      update = (\<lambda>p g. p - g)\<rparr>"

definition demo_state :: "(int, int) train_state" where
  "demo_state = \<lparr>params = 0, grad = Some 100, running_loss = 7, printed = []\<rparr>"

definition demo_loader :: "nat \<Rightarrow> int list" where
  "demo_loader e = [1, 2]"

text \<open>
  The model of the notebook, \<open>fc_model.Network(784, 10, [512, 256, 128])\<close> of cell 4, with
  entries named after their parameter; fresh entries for a newly built network; and a file
  system without files.
\<close>

definition trained :: "string \<Rightarrow> string" where
  "trained name = ''trained '' @ name"

definition fresh :: "string \<Rightarrow> string" where
  "fresh name = ''random '' @ name"

definition trained_model :: "string network" where
  "trained_model =
     \<lparr>hidden_layers = hidden_chain trained 0 784 [512, 256, 128],
      output = Linear trained ''output'' 128 10,
      dropout_p = 1 / 2\<rparr>"

definition no_files :: "string files" where
  "no_files = Map.empty"

text \<open>The shape of each named tensor of a state dict.\<close>

definition param_shapes :: "(string \<times> 'v tensor) list \<Rightarrow> string \<rightharpoonup> int list" where
  "param_shapes sd = map_of (map (\<lambda>(k, t). (k, shape t)) sd)"

text \<open>
  More networks to run the code on: \<open>Network(784, 10, [400, 200, 100])\<close> of cell 10 and
  \<open>Network(784, 10, [512, 256, 128])\<close> with fresh entries; \<open>Network(3, 2, [4])\<close>, whose
  sizes are not those written into the checkpoint; and \<open>Network(784, 10, [128])\<close> next to
  \<open>Network(784, 10, [128, 128])\<close>, which has one hidden layer more.
\<close>

definition resized_model :: "string network" where
  "resized_model =
     \<lparr>hidden_layers = hidden_chain fresh 0 784 [400, 200, 100],
      output = Linear fresh ''output'' 100 10,
      dropout_p = 1 / 2\<rparr>"

definition fresh_model :: "string network" where
  "fresh_model =
     \<lparr>hidden_layers = hidden_chain fresh 0 784 [512, 256, 128],
      output = Linear fresh ''output'' 128 10,
      dropout_p = 1 / 2\<rparr>"

definition small_model :: "string network" where
  "small_model =
     \<lparr>hidden_layers = hidden_chain trained 0 3 [4],
      output = Linear trained ''output'' 4 2,
      dropout_p = 1 / 2\<rparr>"

definition shallow_model :: "string network" where
  "shallow_model =
     \<lparr>hidden_layers = hidden_chain trained 0 784 [128],
      output = Linear trained ''output'' 128 10,
      dropout_p = 1 / 2\<rparr>"

definition deep_model :: "string network" where
  "deep_model =
     \<lparr>hidden_layers = hidden_chain fresh 0 784 [128, 128],
      output = Linear fresh ''output'' 128 10,
      dropout_p = 1 / 2\<rparr>"

section \<open>Properties of the training loop\<close>

lemma training_pass_params:
  "params (training_pass fw s b) = step_alone fw (params s) b"
  by (cases "grad s")
     (simp_all add: training_pass_def zero_grad_def backward_def optimizer_step_def
        step_alone_def Let_def)

lemma training_pass_grad:
  "grad (training_pass fw s b) = Some (grad_of fw (params s) b)"
  by (cases "grad s")
     (simp_all add: training_pass_def zero_grad_def backward_def optimizer_step_def Let_def)

lemma foldl_training_pass_params:
  "params (foldl (training_pass fw) s bs) = foldl (step_alone fw) (params s) bs"
  by (induction bs arbitrary: s) (simp_all add: training_pass_params)

lemma run_epoch_params:
  assumes "bs \<noteq> []"
  shows "\<exists>s'. run_epoch fw bs s = Inr s' \<and> params s' = foldl (step_alone fw) (params s) bs"
  using assms by (simp add: run_epoch_def Let_def foldl_training_pass_params)

lemma run_epoch_no_batches: "run_epoch fw [] s = Inl ZeroDivisionError"
  by (simp add: run_epoch_def)

lemma train_params:
  assumes "\<forall>e\<in>set es. trainloader e \<noteq> []"
  shows "\<exists>s'. train fw trainloader es s = Inr s' \<and>
     params s' = foldl (step_alone fw) (params s) (concat (map trainloader es))"
  using assms
proof (induction es arbitrary: s)
  case Nil
  then show ?case by simp
next
  case (Cons e es)
  from Cons.prems have ne: "trainloader e \<noteq> []" by simp
  from run_epoch_params [OF ne] obtain s1 where
    s1: "run_epoch fw (trainloader e) s = Inr s1"
        "params s1 = foldl (step_alone fw) (params s) (trainloader e)"
    by blast
  from Cons.prems have "\<forall>e\<in>set es. trainloader e \<noteq> []" by simp
  from Cons.IH [OF this, of s1] obtain s2 where
    s2: "train fw trainloader es s1 = Inr s2"
        "params s2 = foldl (step_alone fw) (params s1) (concat (map trainloader es))"
    by blast
  show ?case using s1 s2 by simp
qed

text \<open>
  Without the call of \<open>zero_grad\<close>, two backward passes add their gradients up: the model
  of the framework does accumulate, as the notebook says.
\<close>

lemma backward_accumulates:
  "grad (backward fw b2 (backward fw b1 s)) =
     Some ((case grad s of None \<Rightarrow> grad_of fw (params s) b1
            | Some acc \<Rightarrow> acc + grad_of fw (params s) b1)
           + grad_of fw (params s) b2)"
  by (simp add: backward_def Let_def)

text \<open>
  Claim C8. In every iteration of the training loop \<open>optimizer.zero_grad()\<close> runs before
  \<open>loss.backward()\<close>, so that the gradient \<open>optimizer.step()\<close> consumes is that of the
  current batch's loss alone, whatever gradient the state held before: started on any state
  with a loader that yields at least one batch per pass, the loop ends without an error and
  its parameters are those reached by stepping on each batch's own gradient in turn; nothing
  accumulates across batches or epochs.
\<close>

theorem training_loop_current_batch_gradient:
  assumes "\<forall>e<n. trainloader e \<noteq> []"
  shows "(\<exists>s'. training_loop fw trainloader n s = Inr s' \<and>
            params s' = foldl (step_alone fw) (params s) (concat (map trainloader [0..<n])))
       \<and> grad (backward fw b (zero_grad s)) = Some (grad_of fw (params s) b)"
proof
  from assms have "\<forall>e\<in>set [0..<n]. trainloader e \<noteq> []" by simp
  from train_params [OF this]
  show "\<exists>s'. training_loop fw trainloader n s = Inr s' \<and>
            params s' = foldl (step_alone fw) (params s) (concat (map trainloader [0..<n]))"
    by (simp add: training_loop_def)
next
  show "grad (backward fw b (zero_grad s)) = Some (grad_of fw (params s) b)"
    by (cases "grad s") (simp_all add: backward_def zero_grad_def Let_def)
qed

theorem training_loop_current_batch_gradient_witness:
  "demo_loader 0 \<noteq> [] \<and> demo_loader 1 \<noteq> [] \<and>
   (\<exists>s'. training_loop demo_framework demo_loader 2 demo_state = Inr s' \<and> params s' = 4) \<and>
   grad (backward demo_framework 1 (zero_grad demo_state)) = Some (- 2)"
proof -
  have batches: "\<forall>e<2. demo_loader e \<noteq> []"
    by (simp add: demo_loader_def)
  show ?thesis
    using training_loop_current_batch_gradient [OF batches, of demo_framework demo_state 1]
    by (simp add: step_alone_def demo_framework_def demo_state_def demo_loader_def [abs_def]
          upt_rec)
qed

section \<open>Properties of the checkpoint\<close>

lemma dict_keys_checkpoint:
  "dict_keys (checkpoint model) =
     {''input_size'', ''output_size'', ''hidden_layers'', ''state_dict''}"
  by (simp add: checkpoint_def)

lemma torch_load_save: "torch_load (torch_save obj path fs) path = Inr obj"
  by (simp add: torch_load_def torch_save_def)

lemma getitem_checkpoint:
  "getitem (checkpoint model) ''input_size'' = Inr (PyInt 784)"
  "getitem (checkpoint model) ''output_size'' = Inr (PyInt 10)"
  "getitem (checkpoint model) ''hidden_layers'' =
     Inr (PyList (map (\<lambda>each. PyInt (out_features each)) (hidden_layers model)))"
  "getitem (checkpoint model) ''state_dict'' = Inr (PyStateDict (state_dict model))"
  by (simp_all add: checkpoint_def)

text \<open>
  Loading the file that cell 11 wrote: the three sizes are found, the constructor runs on
  them, and if it returns a network the state dict is looked up and loaded into it.
\<close>

lemma load_checkpoint_saved:
  "load_checkpoint ctor lsd (save_checkpoint model fs) ''checkpoint.pth'' =
     (case ctor (PyInt 784) (PyInt 10)
             (PyList (map (\<lambda>each. PyInt (out_features each)) (hidden_layers model))) of
        Inl e \<Rightarrow> ([''input_size'', ''output_size'', ''hidden_layers''], Inl e)
      | Inr net \<Rightarrow>
          ([''input_size'', ''output_size'', ''hidden_layers'', ''state_dict''],
           lsd net (PyStateDict (state_dict model))))"
  by (simp add: load_checkpoint_def save_checkpoint_def torch_load_save then_do_def call_def
        subscript_def getitem_checkpoint split: sum.splits prod.splits)

lemma Network_trained_model: "Network trained 784 10 [512, 256, 128] = Inr trained_model"
  by (simp add: Network_def trained_model_def)

lemma out_features_trained_model:
  "map (\<lambda>each. PyInt (out_features each)) (hidden_layers trained_model) =
     [PyInt 512, PyInt 256, PyInt 128 :: string pyval]"
  by (simp add: trained_model_def Linear_def)

lemma ctor_trained_model:
  "\<exists>net. fc_model_Network fresh (PyInt 784) (PyInt 10)
       (PyList (map (\<lambda>each. PyInt (out_features each)) (hidden_layers trained_model))) = Inr net"
  by (simp add: out_features_trained_model Network_def)

text \<open>
  Claim C1. Saving and loading a checkpoint agree on the dictionary's keys. The dictionary
  handed to \<open>torch.save\<close> has the keys \<open>input_size\<close>, \<open>output_size\<close>, \<open>hidden_layers\<close> and
  \<open>state_dict\<close>; whatever the constructor and \<open>load_state_dict\<close> do, \<open>load_checkpoint\<close> on the
  file just written subscripts the dictionary with keys it has only, and with every one of
  its keys once the constructor has returned a network.
\<close>

theorem checkpoint_keys_match:
  "dict_keys (checkpoint model) =
     {''input_size'', ''output_size'', ''hidden_layers'', ''state_dict''}
   \<and> keys_read (load_checkpoint ctor lsd (save_checkpoint model fs) ''checkpoint.pth'')
       \<subseteq> dict_keys (checkpoint model)
   \<and> ((\<exists>net. ctor (PyInt 784) (PyInt 10)
              (PyList (map (\<lambda>each. PyInt (out_features each)) (hidden_layers model))) = Inr net)
       \<longrightarrow> keys_read (load_checkpoint ctor lsd (save_checkpoint model fs) ''checkpoint.pth'')
           = dict_keys (checkpoint model))"
  by (auto simp add: load_checkpoint_saved dict_keys_checkpoint keys_read_def split: sum.splits)

theorem checkpoint_keys_match_witness:
  "keys_read (load_checkpoint (fc_model_Network fresh) model_load_state_dict
       (save_checkpoint trained_model no_files) ''checkpoint.pth'')
     = {''input_size'', ''output_size'', ''hidden_layers'', ''state_dict''}"
  using checkpoint_keys_match
      [of trained_model "fc_model_Network fresh" model_load_state_dict no_files]
    ctor_trained_model
  by simp

text \<open>
  Reading \<open>checkpoint.pth\<close> back after cell 11 gives the dictionary of the cell: the
  integers 784 and 10, the list of the integers \<open>out_features\<close> of the hidden layers, and
  the state dict; no other file is touched.
\<close>

lemma saved_checkpoint_read_back:
  "torch_load (save_checkpoint model fs) ''checkpoint.pth'' =
     Inr (PyDict [(''input_size'', PyInt 784),
                  (''output_size'', PyInt 10),
                  (''hidden_layers'', PyList (map PyInt (map out_features (hidden_layers model)))),
                  (''state_dict'', PyStateDict (state_dict model))])
   \<and> save_checkpoint model fs |` (- {''checkpoint.pth''}) = fs |` (- {''checkpoint.pth''})"
  by (simp add: save_checkpoint_def torch_load_def checkpoint_def torch_save_def comp_def)

section \<open>Parameter names\<close>

text \<open>
  The names of the parameters of a network are pairwise different: the decimal index of a
  hidden layer determines the layer, a weight is not a bias, and \<open>output\<close> is not a
  hidden layer.
\<close>

lemma digit_inj:
  assumes "m < 10" "n < 10" "digit m = digit n"
  shows "m = n"
proof -
  have d: "distinct ''0123456789''" by simp
  have l: "length ''0123456789'' = 10" by simp
  from assms show ?thesis
    unfolding digit_def using nth_eq_iff_index_eq [OF d, of m n] l by simp
qed

lemma string_of_nat_not_Nil: "string_of_nat n \<noteq> []"
  by (subst string_of_nat.simps) simp

lemma string_of_nat_inj: "string_of_nat m = string_of_nat n \<Longrightarrow> m = n"
proof (induction m arbitrary: n rule: string_of_nat.induct)
  case (1 m)
  show ?case
  proof (cases "m < 10")
    case m: True
    show ?thesis
    proof (cases "n < 10")
      case True
      with m "1.prems" show ?thesis
        by (simp add: string_of_nat.simps [of m] string_of_nat.simps [of n] digit_inj)
    next
      case False
      with m "1.prems" have "string_of_nat (n div 10) = []"
        by (simp add: string_of_nat.simps [of m] string_of_nat.simps [of n])
      then show ?thesis by (simp add: string_of_nat_not_Nil)
    qed
  next
    case m: False
    show ?thesis
    proof (cases "n < 10")
      case True
      with m "1.prems" have "string_of_nat (m div 10) = []"
        by (simp add: string_of_nat.simps [of m] string_of_nat.simps [of n])
      then show ?thesis by (simp add: string_of_nat_not_Nil)
    next
      case False
      with m "1.prems" have
        hi: "string_of_nat (m div 10) = string_of_nat (n div 10)" and
        lo: "digit (m mod 10) = digit (n mod 10)"
        by (simp_all add: string_of_nat.simps [of m] string_of_nat.simps [of n])
      from "1.IH" [OF m hi] have "m div 10 = n div 10" .
      moreover from lo have "m mod 10 = n mod 10"
        by (intro digit_inj) simp_all
      ultimately show ?thesis
        by (metis div_mult_mod_eq)
    qed
  qed
qed

lemma hidden_name_eq [simp]: "hidden_name i = hidden_name j \<longleftrightarrow> i = j"
  by (auto simp add: hidden_name_def dest: string_of_nat_inj)

lemma weight_not_bias [simp]: "a @ ''.weight'' \<noteq> b @ ''.bias''"
proof
  assume "a @ ''.weight'' = b @ ''.bias''"
  then have "last (a @ ''.weight'') = last (b @ ''.bias'')" by simp
  then show False by simp
qed

lemma bias_not_weight [simp]: "b @ ''.bias'' \<noteq> a @ ''.weight''"
  using weight_not_bias [of a b] by (simp only: not_sym not_False_eq_True)

lemma output_not_hidden [simp]:
  "''output.weight'' \<noteq> hidden_name j @ s" "''output.bias'' \<noteq> hidden_name j @ s"
  by (simp_all add: hidden_name_def)

lemma hidden_params_keys:
  "k \<in> fst ` set (hidden_params i ls) \<longleftrightarrow>
     (\<exists>j. i \<le> j \<and> j < i + length ls \<and>
        (k = hidden_name j @ ''.weight'' \<or> k = hidden_name j @ ''.bias''))"
proof (induction ls arbitrary: i)
  case Nil
  then show ?case by simp
next
  case (Cons l ls)
  have "k \<in> fst ` set (hidden_params i (l # ls)) \<longleftrightarrow>
          k = hidden_name i @ ''.weight'' \<or> k = hidden_name i @ ''.bias'' \<or>
          k \<in> fst ` set (hidden_params (Suc i) ls)"
    by (auto simp add: layer_params_def)
  also have "\<dots> \<longleftrightarrow> (\<exists>j. i \<le> j \<and> j < i + length (l # ls) \<and>
        (k = hidden_name j @ ''.weight'' \<or> k = hidden_name j @ ''.bias''))"
    unfolding Cons.IH
  proof (intro iffI)
    assume "k = hidden_name i @ ''.weight'' \<or> k = hidden_name i @ ''.bias'' \<or>
      (\<exists>j\<ge>Suc i. j < Suc i + length ls \<and>
             (k = hidden_name j @ ''.weight'' \<or> k = hidden_name j @ ''.bias''))"
    then show "\<exists>j\<ge>i. j < i + length (l # ls) \<and>
             (k = hidden_name j @ ''.weight'' \<or> k = hidden_name j @ ''.bias'')"
      by (elim disjE exE) (force intro: exI [of _ i])+
  next
    assume "\<exists>j\<ge>i. j < i + length (l # ls) \<and>
             (k = hidden_name j @ ''.weight'' \<or> k = hidden_name j @ ''.bias'')"
    then obtain j where j: "i \<le> j" "j < i + length (l # ls)"
      "k = hidden_name j @ ''.weight'' \<or> k = hidden_name j @ ''.bias''" by blast
    show "k = hidden_name i @ ''.weight'' \<or> k = hidden_name i @ ''.bias'' \<or>
      (\<exists>j\<ge>Suc i. j < Suc i + length ls \<and>
             (k = hidden_name j @ ''.weight'' \<or> k = hidden_name j @ ''.bias''))"
    proof (cases "j = i")
      case True
      with j show ?thesis by blast
    next
      case False
      with j have "Suc i \<le> j" "j < Suc i + length ls" by simp_all
      with j show ?thesis by blast
    qed
  qed
  finally show ?case .
qed

lemma distinct_hidden_params: "distinct (map fst (hidden_params i ls))"
proof (induction ls arbitrary: i)
  case Nil
  then show ?case by simp
next
  case (Cons l ls)
  have "hidden_name i @ s \<notin> fst ` set (hidden_params (Suc i) ls)"
    if "s = ''.weight'' \<or> s = ''.bias''" for s
    using that by (auto simp add: hidden_params_keys)
  then have "hidden_name i @ ''.weight'' \<notin> fst ` set (hidden_params (Suc i) ls)"
    "hidden_name i @ ''.bias'' \<notin> fst ` set (hidden_params (Suc i) ls)"
    by simp_all
  with Cons.IH [of "Suc i"] show ?case
    by (simp add: layer_params_def)
qed

lemma distinct_state_dict: "distinct (map fst (state_dict model))"
proof -
  have "''output.weight'' \<notin> fst ` set (hidden_params 0 (hidden_layers model))"
    "''output.bias'' \<notin> fst ` set (hidden_params 0 (hidden_layers model))"
    by (auto simp add: hidden_params_keys)
  then show ?thesis
    using distinct_hidden_params [of 0 "hidden_layers model"]
    by (simp add: state_dict_def layer_params_def)
qed


section \<open>Properties of \<open>load_state_dict\<close>\<close>

lemma hidden_params_load_hidden:
  "hidden_params i (load_hidden sd i ls) =
     map (\<lambda>(k, p). (k, copy_param sd k p)) (hidden_params i ls)"
  by (induction ls arbitrary: i) (simp_all add: layer_params_def load_linear_def)

lemma state_dict_loaded:
  "state_dict (model\<lparr>hidden_layers := load_hidden sd 0 (hidden_layers model),
                     output := load_linear sd ''output'' (output model)\<rparr>) =
     map (\<lambda>(k, p). (k, copy_param sd k p)) (state_dict model)"
  by (simp add: state_dict_def hidden_params_load_hidden layer_params_def load_linear_def)

lemma map_of_map_keyed:
  "map_of (map (\<lambda>(k, p). (k, g k p)) xs) k = map_option (g k) (map_of xs k)"
  by (induction xs) auto

lemma size_mismatch_found:
  assumes "map_of sd k = Some t" "map_of own k = Some p" "shape t \<noteq> shape p"
  shows "SizeMismatch k (shape t) (shape p) \<in> set (size_mismatches own sd)"
proof -
  from assms(2) have "(k, p) \<in> set own" by (rule map_of_SomeD)
  with assms(1,3) show ?thesis
    unfolding size_mismatches_def by (force simp add: image_iff)
qed

lemma load_state_dict_raises:
  assumes "m \<in> set (load_error_msgs (state_dict model) sd)"
  shows "load_state_dict model sd = Inl (RuntimeError (load_error_msgs (state_dict model) sd))"
proof -
  from assms have "load_error_msgs (state_dict model) sd \<noteq> []" by auto
  then show ?thesis by (simp add: load_state_dict_def Let_def)
qed

lemma shapes_by_name:
  assumes "map_of (map (\<lambda>(k, t). (k, shape t)) sd) = map_of (map (\<lambda>(k, t). (k, shape t)) own)"
  shows "map_option shape (map_of sd k) = map_option shape (map_of own k)"
proof -
  from assms have "(map_option shape \<circ> map_of sd) k = (map_option shape \<circ> map_of own) k"
    by (simp only: map_of_map)
  then show ?thesis by simp
qed

lemma load_error_msgs_Nil:
  assumes shapes: "map_of (map (\<lambda>(k, t). (k, shape t)) sd) =
                   map_of (map (\<lambda>(k, t). (k, shape t)) own)"
    and dist: "distinct (map fst own)"
  shows "load_error_msgs own sd = []"
proof -
  note eq = shapes_by_name [OF shapes]
  have missing: "filter (\<lambda>k. map_of sd k = None) (map fst own) = []"
  proof -
    have "map_of sd k \<noteq> None" if "k \<in> set (map fst own)" for k
    proof -
      from that have "map_of own k \<noteq> None" by (simp add: map_of_eq_None_iff)
      with eq [of k] show ?thesis by (cases "map_of sd k") auto
    qed
    then show ?thesis by (simp add: filter_empty_conv)
  qed
  have unexpected: "filter (\<lambda>k. map_of own k = None) (map fst sd) = []"
  proof -
    have "map_of own k \<noteq> None" if "k \<in> set (map fst sd)" for k
    proof -
      from that have "map_of sd k \<noteq> None" by (simp add: map_of_eq_None_iff)
      with eq [of k] show ?thesis by (cases "map_of own k") auto
    qed
    then show ?thesis by (simp add: filter_empty_conv)
  qed
  have mismatch: "size_mismatches own sd = []"
  proof -
    have "(case map_of sd k of None \<Rightarrow> []
           | Some t \<Rightarrow> if shape t \<noteq> shape p then [SizeMismatch k (shape t) (shape p)] else []) = []"
      if "(k, p) \<in> set own" for k p
    proof -
      from dist that have "map_of own k = Some p" by simp
      with eq [of k] show ?thesis by (auto split: option.splits)
    qed
    then show ?thesis unfolding size_mismatches_def by auto
  qed
  show ?thesis
    by (simp add: load_error_msgs_def missing unexpected mismatch)
qed

lemma load_state_dict_succeeds:
  assumes shapes: "map_of (map (\<lambda>(k, t). (k, shape t)) sd) =
                   map_of (map (\<lambda>(k, t). (k, shape t)) (state_dict model))"
  shows "load_state_dict model sd =
           Inr (model\<lparr>hidden_layers := load_hidden sd 0 (hidden_layers model),
                      output := load_linear sd ''output'' (output model)\<rparr>)"
  by (simp add: load_state_dict_def load_error_msgs_Nil [OF shapes distinct_state_dict])

lemma map_of_state_dict_loaded:
  assumes shapes: "map_of (map (\<lambda>(k, t). (k, shape t)) sd) =
                   map_of (map (\<lambda>(k, t). (k, shape t)) (state_dict model))"
  shows "map_of (state_dict (model\<lparr>hidden_layers := load_hidden sd 0 (hidden_layers model),
                      output := load_linear sd ''output'' (output model)\<rparr>)) = map_of sd"
proof
  fix k
  note eq = shapes_by_name [OF shapes, of k]
  show "map_of (state_dict (model\<lparr>hidden_layers := load_hidden sd 0 (hidden_layers model),
                      output := load_linear sd ''output'' (output model)\<rparr>)) k = map_of sd k"
    unfolding state_dict_loaded map_of_map_keyed
    using eq by (cases "map_of sd k"; cases "map_of (state_dict model) k")
      (simp_all add: copy_param_def)
qed

lemma names012:
  "hidden_name 0 = ''hidden_layers.0''"
  "hidden_name (Suc 0) = ''hidden_layers.1''"
  "hidden_name (Suc (Suc 0)) = ''hidden_layers.2''"
  by (simp_all add: hidden_name_def string_of_nat.simps digit_def)

lemma names_0_1_2:
  "hidden_name 0 = ''hidden_layers.0''"
  "hidden_name (Suc 0) = ''hidden_layers.1''"
  "hidden_name (Suc (Suc 0)) = ''hidden_layers.2''"
  by (simp_all add: hidden_name_def string_of_nat.simps digit_def)

lemma map_of_state_dict:
  assumes "(k, t) \<in> set (state_dict model)"
  shows "map_of (state_dict model) k = Some t"
  using distinct_state_dict assms by (rule map_of_is_SomeI)

lemma names_state_dict_loaded:
  "map fst (state_dict (model\<lparr>hidden_layers := load_hidden sd 0 (hidden_layers model),
                     output := load_linear sd ''output'' (output model)\<rparr>)) =
     map fst (state_dict model)"
  unfolding state_dict_loaded by (induction "state_dict model") auto

text \<open>
  The error of cell 10, message by message: the state dict of
  \<open>Network(784, 10, [512, 256, 128])\<close> does not fit \<open>Network(784, 10, [400, 200, 100])\<close>.
\<close>

lemma load_state_dict_cell_10:
  assumes "Network init1 784 10 [512, 256, 128] = Inr m1"
    and "Network init2 784 10 [400, 200, 100] = Inr m2"
  shows "load_state_dict m2 (state_dict m1) =
     Inl (RuntimeError
       [SizeMismatch ''hidden_layers.0.weight'' [512, 784] [400, 784],
        SizeMismatch ''hidden_layers.0.bias'' [512] [400],
        SizeMismatch ''hidden_layers.1.weight'' [256, 512] [200, 400],
        SizeMismatch ''hidden_layers.1.bias'' [256] [200],
        SizeMismatch ''hidden_layers.2.weight'' [128, 256] [100, 200],
        SizeMismatch ''hidden_layers.2.bias'' [128] [100],
        SizeMismatch ''output.weight'' [10, 128] [10, 100]])"
  using assms
  by (auto simp add: Network_def load_state_dict_def load_error_msgs_def size_mismatches_def
      state_dict_def layer_params_def Linear_def names_0_1_2)

text \<open>
  The claim as stated, that loading succeeds whenever all shapes match, fails: loading "works
  only if the model architecture is exactly the same as the checkpoint architecture". The
  state dict of \<open>Network(784, 10, [128])\<close> has four tensors, and each has the shape of the
  parameter of its name in \<open>Network(784, 10, [128, 128])\<close>, so that no size mismatch is
  found; yet the load raises \<open>RuntimeError\<close>, the state dict having no tensor for the second
  hidden layer of the model.
\<close>

theorem load_state_dict_shapes_counterexample:
  "map fst (state_dict shallow_model) =
     [''hidden_layers.0.weight'', ''hidden_layers.0.bias'', ''output.weight'', ''output.bias'']
   \<and> param_shapes (state_dict shallow_model) ''hidden_layers.0.weight'' = Some [128, 784]
   \<and> param_shapes (state_dict deep_model) ''hidden_layers.0.weight'' = Some [128, 784]
   \<and> param_shapes (state_dict shallow_model) ''hidden_layers.0.bias'' = Some [128]
   \<and> param_shapes (state_dict deep_model) ''hidden_layers.0.bias'' = Some [128]
   \<and> param_shapes (state_dict shallow_model) ''output.weight'' = Some [10, 128]
   \<and> param_shapes (state_dict deep_model) ''output.weight'' = Some [10, 128]
   \<and> param_shapes (state_dict shallow_model) ''output.bias'' = Some [10]
   \<and> param_shapes (state_dict deep_model) ''output.bias'' = Some [10]
   \<and> size_mismatches (state_dict deep_model) (state_dict shallow_model) = []
   \<and> load_state_dict deep_model (state_dict shallow_model) =
       Inl (RuntimeError [MissingKeys [''hidden_layers.1.weight'', ''hidden_layers.1.bias'']])"
  by (simp add: deep_model_def shallow_model_def load_state_dict_def load_error_msgs_def
      size_mismatches_def state_dict_def layer_params_def Linear_def names_0_1_2
      param_shapes_def)

text \<open>
  Claim C3, as amended. \<open>model.load_state_dict(state_dict)\<close> raises an error whenever some
  tensor of the state dict has a shape different from the parameter of the model with its
  name; in particular the state dict of \<open>Network(784, 10, [512, 256, 128])\<close> loaded into
  \<open>Network(784, 10, [400, 200, 100])\<close> raises \<open>RuntimeError\<close>, with the seven messages of
  the notebook. It succeeds whenever the state dict has a tensor for exactly the parameter
  names of the model and all shapes match, that is, whenever the state dict and the model
  give the same shape to the same names; then every parameter of the model is the state
  dict's tensor of that name.
\<close>

theorem load_state_dict_shapes:
  "((\<exists>k t p. map_of sd k = Some t \<and> map_of (state_dict model) k = Some p \<and> shape t \<noteq> shape p)
      \<longrightarrow> (\<exists>msgs. load_state_dict model sd = Inl (RuntimeError msgs)))
   \<and> (\<exists>m1 m2. Network init1 784 10 [512, 256, 128] = Inr m1 \<and>
         Network init2 784 10 [400, 200, 100] = Inr m2 \<and>
         load_state_dict m2 (state_dict m1) =
           Inl (RuntimeError
             [SizeMismatch ''hidden_layers.0.weight'' [512, 784] [400, 784],
              SizeMismatch ''hidden_layers.0.bias'' [512] [400],
              SizeMismatch ''hidden_layers.1.weight'' [256, 512] [200, 400],
              SizeMismatch ''hidden_layers.1.bias'' [256] [200],
              SizeMismatch ''hidden_layers.2.weight'' [128, 256] [100, 200],
              SizeMismatch ''hidden_layers.2.bias'' [128] [100],
              SizeMismatch ''output.weight'' [10, 128] [10, 100]]))
   \<and> (param_shapes sd = param_shapes (state_dict model)
      \<longrightarrow> (\<exists>model'. load_state_dict model sd = Inr model' \<and>
            map_of (state_dict model') = map_of sd \<and>
            map fst (state_dict model') = map fst (state_dict model)))"
proof (intro conjI impI)
  assume "\<exists>k t p. map_of sd k = Some t \<and> map_of (state_dict model) k = Some p \<and>
    shape t \<noteq> shape p"
  then obtain k t p where "map_of sd k = Some t" "map_of (state_dict model) k = Some p"
    "shape t \<noteq> shape p" by blast
  then have "SizeMismatch k (shape t) (shape p) \<in> set (size_mismatches (state_dict model) sd)"
    by (rule size_mismatch_found)
  then have "SizeMismatch k (shape t) (shape p) \<in> set (load_error_msgs (state_dict model) sd)"
    by (simp add: load_error_msgs_def Let_def)
  from load_state_dict_raises [OF this]
  show "\<exists>msgs. load_state_dict model sd = Inl (RuntimeError msgs)" by blast
next
  obtain m1 where m1: "Network init1 784 10 [512, 256, 128] = Inr m1"
    by (simp add: Network_def)
  obtain m2 where m2: "Network init2 784 10 [400, 200, 100] = Inr m2"
    by (simp add: Network_def)
  from m1 m2 load_state_dict_cell_10 [OF m1 m2]
  show "\<exists>m1 m2. Network init1 784 10 [512, 256, 128] = Inr m1 \<and>
         Network init2 784 10 [400, 200, 100] = Inr m2 \<and>
         load_state_dict m2 (state_dict m1) =
           Inl (RuntimeError
             [SizeMismatch ''hidden_layers.0.weight'' [512, 784] [400, 784],
              SizeMismatch ''hidden_layers.0.bias'' [512] [400],
              SizeMismatch ''hidden_layers.1.weight'' [256, 512] [200, 400],
              SizeMismatch ''hidden_layers.1.bias'' [256] [200],
              SizeMismatch ''hidden_layers.2.weight'' [128, 256] [100, 200],
              SizeMismatch ''hidden_layers.2.bias'' [128] [100],
              SizeMismatch ''output.weight'' [10, 128] [10, 100]])"
    by blast
next
  assume "param_shapes sd = param_shapes (state_dict model)"
  then have shapes: "map_of (map (\<lambda>(k, t). (k, shape t)) sd) =
                     map_of (map (\<lambda>(k, t). (k, shape t)) (state_dict model))"
    by (simp add: param_shapes_def)
  show "\<exists>model'. load_state_dict model sd = Inr model' \<and>
            map_of (state_dict model') = map_of sd \<and>
            map fst (state_dict model') = map fst (state_dict model)"
    using load_state_dict_succeeds [OF shapes] map_of_state_dict_loaded [OF shapes]
      names_state_dict_loaded [where model = model and sd = sd]
    by simp
qed

lemma Network_resized_model: "Network fresh 784 10 [400, 200, 100] = Inr resized_model"
  by (simp add: Network_def resized_model_def)

lemma Network_fresh_model: "Network fresh 784 10 [512, 256, 128] = Inr fresh_model"
  by (simp add: Network_def fresh_model_def)

lemma shapes_trained_fresh:
  "param_shapes (state_dict trained_model) = param_shapes (state_dict fresh_model)"
  by (simp add: param_shapes_def trained_model_def fresh_model_def state_dict_def
      layer_params_def Linear_def)

lemma mismatch_trained_resized:
  "\<exists>k t p. map_of (state_dict trained_model) k = Some t \<and>
     map_of (state_dict resized_model) k = Some p \<and> shape t \<noteq> shape p"
proof -
  have "map_of (state_dict trained_model) ''output.weight'' = Some (weight (output trained_model))"
    by (rule map_of_state_dict) (simp add: state_dict_def layer_params_def)
  moreover have
    "map_of (state_dict resized_model) ''output.weight'' = Some (weight (output resized_model))"
    by (rule map_of_state_dict) (simp add: state_dict_def layer_params_def)
  moreover have "shape (weight (output trained_model)) \<noteq> shape (weight (output resized_model))"
    by (simp add: trained_model_def resized_model_def Linear_def)
  ultimately show ?thesis by blast
qed

theorem load_state_dict_shapes_witness:
  "(\<exists>msgs. load_state_dict resized_model (state_dict trained_model) = Inl (RuntimeError msgs))
   \<and> (\<exists>model'. load_state_dict fresh_model (state_dict trained_model) = Inr model' \<and>
         map_of (state_dict model') = map_of (state_dict trained_model) \<and>
         map fst (state_dict model') = map fst (state_dict fresh_model))"
  using load_state_dict_shapes [of "state_dict trained_model" resized_model]
    load_state_dict_shapes [of "state_dict trained_model" fresh_model]
    mismatch_trained_resized shapes_trained_fresh
  by blast
section \<open>The round trip through a checkpoint\<close>

lemma out_features_hidden_chain: "map out_features (hidden_chain init i n hs) = hs"
  by (induction hs arbitrary: i n) (simp_all add: Linear_def)

lemma int_list_PyInt: "int_list (map PyInt hs) = Some hs"
  by (induction hs) simp_all

lemma shapes_hidden_chain:
  "map (\<lambda>(k, t). (k, shape t)) (hidden_params i (hidden_chain init i n hs)) =
   map (\<lambda>(k, t). (k, shape t)) (hidden_params i (hidden_chain init' i n hs))"
  by (induction hs arbitrary: i n) (simp_all add: layer_params_def Linear_def)

lemma load_hidden_chain:
  assumes "\<forall>(k, t)\<in>set (hidden_params i (hidden_chain init i n hs)). map_of sd k = Some t"
  shows "load_hidden sd i (hidden_chain init' i n hs) = hidden_chain init i n hs"
  using assms
proof (induction hs arbitrary: i n)
  case Nil
  then show ?case by simp
next
  case (Cons h hs)
  from Cons.prems have
    w: "map_of sd (hidden_name i @ ''.weight'') = Some (weight (Linear init (hidden_name i) n h))" and
    b: "map_of sd (hidden_name i @ ''.bias'') = Some (bias (Linear init (hidden_name i) n h))" and
    rest: "\<forall>(k, t)\<in>set (hidden_params (Suc i) (hidden_chain init (Suc i) h hs)). map_of sd k = Some t"
    by (simp_all add: layer_params_def)
  have "load_linear sd (hidden_name i) (Linear init' (hidden_name i) n h) =
          Linear init (hidden_name i) n h"
    using w b by (simp add: load_linear_def copy_param_def Linear_def)
  with Cons.IH [OF rest] show ?case by simp
qed

lemma Network_Inr:
  assumes "Network init input_size output_size hidden = Inr model"
  shows "hidden \<noteq> []"
    and "model = \<lparr>hidden_layers = hidden_chain init 0 input_size hidden,
                  output = Linear init ''output'' (last hidden) output_size,
                  dropout_p = 1 / 2\<rparr>"
  using assms by (auto simp add: Network_def split: if_splits)

lemma load_state_dict_same_architecture:
  assumes m: "Network init input_size output_size hidden = Inr model"
    and m0: "Network init' input_size output_size hidden = Inr model0"
  shows "load_state_dict model0 (state_dict model) = Inr model"
proof -
  note M = Network_Inr(2) [OF m] and M0 = Network_Inr(2) [OF m0]
  have hl: "hidden_layers model = hidden_chain init 0 input_size hidden"
    and out: "output model = Linear init ''output'' (last hidden) output_size"
    by (simp_all add: M)
  have hl0: "hidden_layers model0 = hidden_chain init' 0 input_size hidden"
    and out0: "output model0 = Linear init' ''output'' (last hidden) output_size"
    by (simp_all add: M0)
  have shapes: "map_of (map (\<lambda>(k, t). (k, shape t)) (state_dict model)) =
                map_of (map (\<lambda>(k, t). (k, shape t)) (state_dict model0))"
    by (simp add: state_dict_def hl hl0 out out0 shapes_hidden_chain [of 0 init _ _ init']
          layer_params_def Linear_def)
  have hidden: "load_hidden (state_dict model) 0 (hidden_layers model0) = hidden_layers model"
    unfolding hl hl0
  proof (rule load_hidden_chain)
    show "\<forall>(k, t)\<in>set (hidden_params 0 (hidden_chain init 0 input_size hidden)).
            map_of (state_dict model) k = Some t"
      using map_of_state_dict [of _ _ model] by (auto simp add: state_dict_def hl)
  qed
  have "map_of (state_dict model) ''output.weight'' = Some (weight (output model))"
    "map_of (state_dict model) ''output.bias'' = Some (bias (output model))"
    by (rule map_of_state_dict, simp add: state_dict_def layer_params_def)+
  then have outl: "load_linear (state_dict model) ''output'' (output model0) = output model"
    by (simp add: load_linear_def copy_param_def out out0 Linear_def)
  have "load_state_dict model0 (state_dict model) =
          Inr (model0\<lparr>hidden_layers := hidden_layers model, output := output model\<rparr>)"
    by (simp add: load_state_dict_succeeds [OF shapes] hidden outl)
  also have "model0\<lparr>hidden_layers := hidden_layers model, output := output model\<rparr> = model"
    by (simp add: M M0)
  finally show ?thesis .
qed

text \<open>
  Claim C2, as amended. For every network built by \<open>Network(784, 10, hidden)\<close>, whatever its
  entries, saving the checkpoint dictionary of cell 11 and calling \<open>load_checkpoint\<close> on the
  file returns a network equal to the saved one: the same input size, hidden sizes and
  output size, and the parameters of the saved state dict.
\<close>

theorem checkpoint_round_trip_784_10:
  assumes "Network init 784 10 hidden = Inr model"
  shows "result (load_checkpoint (fc_model_Network init') model_load_state_dict
           (save_checkpoint model fs) ''checkpoint.pth'') = Inr model"
proof -
  note ne = Network_Inr(1) [OF assms]
  have "map (\<lambda>each. PyInt (out_features each)) (hidden_layers model) =
          map PyInt (map out_features (hidden_layers model))"
    by simp
  also have "map out_features (hidden_layers model) = hidden"
    by (simp add: Network_Inr(2) [OF assms] out_features_hidden_chain)
  finally have hs:
    "map (\<lambda>each. PyInt (out_features each)) (hidden_layers model) = map PyInt hidden" .
  from ne obtain model0 where m0: "Network init' 784 10 hidden = Inr model0"
    by (simp add: Network_def)
  show ?thesis
    by (simp add: load_checkpoint_saved hs int_list_PyInt m0 result_def
          load_state_dict_same_architecture [OF assms m0])
qed

text \<open>
  The claim as stated, for every network, fails: the dictionary of cell 11 holds the literals
  784 and 10, not the sizes of the model. For \<open>Network(3, 2, [4])\<close> the network rebuilt from
  the checkpoint is \<open>Network(784, 10, [4])\<close>, and loading the saved state dict into it raises.
\<close>

theorem checkpoint_round_trip_counterexample:
  "Network trained 3 2 [4] = Inr small_model \<and>
   result (load_checkpoint (fc_model_Network fresh) model_load_state_dict
       (save_checkpoint small_model no_files) ''checkpoint.pth'') =
     Inl (RuntimeError
       [SizeMismatch ''hidden_layers.0.weight'' [4, 3] [4, 784],
        SizeMismatch ''output.weight'' [2, 4] [10, 4],
        SizeMismatch ''output.bias'' [2] [10]])"
  by (simp add: load_checkpoint_saved result_def small_model_def Network_def
      load_state_dict_def load_error_msgs_def size_mismatches_def
      state_dict_def layer_params_def Linear_def names_0_1_2)

theorem checkpoint_round_trip_784_10_witness:
  "result (load_checkpoint (fc_model_Network fresh) model_load_state_dict
           (save_checkpoint trained_model no_files) ''checkpoint.pth'') = Inr trained_model"
  using checkpoint_round_trip_784_10 [OF Network_trained_model] .

end
